theory Spec2Isabelle
  imports Main "HOL-Library.Word"
begin

section \<open>Values shared by the routes and the models\<close>

text \<open>
  The errors of \<^verbatim>\<open>expressError.js\<close> that the sources import, the errors raised by the
  external SDKs, and the errors PostgreSQL raises for the constraints of the schema.
\<close>

datatype pg_error =
    character_not_in_repertoire
  | invalid_text_representation
  | numeric_value_out_of_range
  | string_data_right_truncation
  | sequence_generator_limit_exceeded
  | unique_violation
  | foreign_key_violation

datatype error =
    NotFoundError string
  | UnauthorizedError string
  | BadRequestError string
  | TypeError string
  | SdkError string
  | DatabaseError pg_error

type_synonym buffer = "8 word list"

text \<open>
  JavaScript truthiness of a value that is a string or \<^verbatim>\<open>undefined\<close>: \<^verbatim>\<open>!s\<close> holds for
  \<^verbatim>\<open>undefined\<close> and for the empty string.
\<close>

definition truthy :: "string option \<Rightarrow> bool" where
  "truthy s = (case s of None \<Rightarrow> False | Some v \<Rightarrow> v \<noteq> [])"

text \<open>\<^verbatim>\<open>xs[i]\<close> on a JavaScript array: \<^verbatim>\<open>undefined\<close> out of range.\<close>

definition js_index :: "'a list \<Rightarrow> nat \<Rightarrow> 'a option" where
  "js_index xs i = (if i < length xs then Some (xs ! i) else None)"

text \<open>\<^verbatim>\<open>n.toString()\<close> for a non-negative integer: its decimal digits.\<close>

fun toString :: "nat \<Rightarrow> string" where
  "toString n =
     (if n < 10 then [''0123456789'' ! n]
      else toString (n div 10) @ [''0123456789'' ! (n mod 10)])"

declare toString.simps [simp del]


section \<open>The database\<close>

text \<open>
  The tables of the schema that the modelled code reads and writes. A nullable column is
  an option. \<^verbatim>\<open>images\<close> has the three tag columns of the \<^verbatim>\<open>CREATE TABLE\<close> statement.
\<close>

record users_row =
  users_id :: int
  users_username :: string
  users_password :: string
  users_first_name :: "string option"
  users_last_name :: "string option"
  users_profile_image :: "string option"
  users_about :: "string option"

record trips_row =
  trips_id :: int
  trips_user_id :: "int option"
  trips_title :: string

record images_row =
  images_id :: int
  images_file_url :: string
  images_trip_id :: "int option"
  images_caption :: "string option"
  images_tag1 :: "string option"
  images_tag2 :: "string option"
  images_tag3 :: "string option"

record database =
  users :: "users_row list"
  trips :: "trips_row list"
  images :: "images_row list"
  images_id_seq :: int

text \<open>
  The driver sends every parameter of a statement as text, \<^verbatim>\<open>undefined\<close> as \<^verbatim>\<open>NULL\<close>.
  PostgreSQL refuses a text that holds the character U+0000 (22021).
\<close>

definition text_param :: "string \<Rightarrow> pg_error + string" where
  "text_param s = (if CHR 0x00 \<in> set s then Inl character_not_in_repertoire else Inr s)"

definition null_or_text_param :: "string option \<Rightarrow> pg_error + string option" where
  "null_or_text_param v =
     (case v of
        None \<Rightarrow> Inr None
      | Some s \<Rightarrow> (case text_param s of Inl e \<Rightarrow> Inl e | Inr t \<Rightarrow> Inr (Some t)))"

text \<open>
  A text bound to an \<^verbatim>\<open>INTEGER\<close> column is read as a decimal literal: white space, an
  optional sign, digits, white space. Without a digit it is refused (22P02), beyond 32
  bits it is out of range (22003), and with anything else after the digits it is refused
  (22P02). (The literals with a base prefix or underscores of later versions of
  PostgreSQL are read as this one reads them: refused.)
\<close>

definition is_space :: "char \<Rightarrow> bool" where
  "is_space c = (c \<in> set [CHR '' '', CHR 0x09, CHR 0x0A, CHR 0x0B, CHR 0x0C, CHR 0x0D])"

definition digit :: "char \<Rightarrow> nat option" where
  "digit c = map_of [(CHR ''0'', 0), (CHR ''1'', 1), (CHR ''2'', 2), (CHR ''3'', 3),
                     (CHR ''4'', 4), (CHR ''5'', 5), (CHR ''6'', 6), (CHR ''7'', 7),
                     (CHR ''8'', 8), (CHR ''9'', 9)] c"

definition decimal :: "string \<Rightarrow> nat" where
  "decimal ds = foldl (\<lambda>n c. 10 * n + (case digit c of None \<Rightarrow> 0 | Some k \<Rightarrow> k)) 0 ds"

definition int4in :: "string \<Rightarrow> pg_error + int" where
  "int4in s =
     (let t = dropWhile is_space s;
          signed = (case t of [] \<Rightarrow> False | c # cs \<Rightarrow> c = CHR ''-'' \<or> c = CHR ''+'');
          negative = (case t of [] \<Rightarrow> False | c # cs \<Rightarrow> c = CHR ''-'');
          u = (if signed then tl t else t);
          ds = takeWhile (\<lambda>c. digit c \<noteq> None) u;
          rest = dropWhile (\<lambda>c. digit c \<noteq> None) u;
          v = (if negative then - int (decimal ds) else int (decimal ds))
      in if ds = [] then Inl invalid_text_representation
         else if v < - 2147483648 \<or> 2147483647 < v then Inl numeric_value_out_of_range
         else if list_all is_space rest then Inr v
         else Inl invalid_text_representation)"

definition int4_param :: "string \<Rightarrow> pg_error + int" where
  "int4_param s = (case text_param s of Inl e \<Rightarrow> Inl e | Inr t \<Rightarrow> int4in t)"

text \<open>
  Storing into a \<^verbatim>\<open>VARCHAR(25)\<close> column: \<^verbatim>\<open>NULL\<close> and strings of at most 25 characters
  are stored as they are; a longer string is an error (22001) unless the excess is all
  spaces, which are cut off. The limit counts characters, and a string of the model is the
  list of its characters.
\<close>

definition varchar25 :: "string option \<Rightarrow> pg_error + string option" where
  "varchar25 v =
     (case v of
        None \<Rightarrow> Inr None
      | Some s \<Rightarrow>
          if length s \<le> 25 then Inr (Some s)
          else if list_all (\<lambda>c. c = CHR '' '') (drop 25 s) then Inr (Some (take 25 s))
          else Inl string_data_right_truncation)"

text \<open>
  The statement of \<^verbatim>\<open>Trip.addImage\<close>,
  \<^verbatim>\<open>INSERT INTO images (file_url, trip_id, caption, tag1, tag2, tag3)
     VALUES ($1, $2, $3, $4, $5, $6) RETURNING id\<close>,
  with its six parameters as the code passes them: the trip id is the string of the route.
  Before the statement runs, the parameters are read in their order and the tags are then
  fitted to their columns; the first value refused fails the statement.
\<close>

datatype query =
  InsertImage string string string "string option" "string option" "string option"

record insert_values =
  v_file_url :: string
  v_trip_id :: int
  v_caption :: string
  v_tag1 :: "string option"
  v_tag2 :: "string option"
  v_tag3 :: "string option"

definition bind_insert ::
  "string \<Rightarrow> string \<Rightarrow> string \<Rightarrow> string option \<Rightarrow> string option \<Rightarrow> string option \<Rightarrow>
   pg_error + insert_values" where
  "bind_insert file_url tripId caption t1 t2 t3 =
     (case text_param file_url of Inl e \<Rightarrow> Inl e | Inr u \<Rightarrow>
     (case int4_param tripId of Inl e \<Rightarrow> Inl e | Inr i \<Rightarrow>
     (case text_param caption of Inl e \<Rightarrow> Inl e | Inr c \<Rightarrow>
     (case null_or_text_param t1 of Inl e \<Rightarrow> Inl e | Inr p1 \<Rightarrow>
     (case null_or_text_param t2 of Inl e \<Rightarrow> Inl e | Inr p2 \<Rightarrow>
     (case null_or_text_param t3 of Inl e \<Rightarrow> Inl e | Inr p3 \<Rightarrow>
     (case varchar25 p1 of Inl e \<Rightarrow> Inl e | Inr c1 \<Rightarrow>
     (case varchar25 p2 of Inl e \<Rightarrow> Inl e | Inr c2 \<Rightarrow>
     (case varchar25 p3 of Inl e \<Rightarrow> Inl e | Inr c3 \<Rightarrow>
        Inr \<lparr>v_file_url = u, v_trip_id = i, v_caption = c,
             v_tag1 = c1, v_tag2 = c2, v_tag3 = c3\<rparr>)))))))))"

text \<open>
  Running the statement: the \<^verbatim>\<open>SERIAL\<close> id is drawn from the sequence, which ends at
  2147483647 (2200H), and a value drawn is not given back when the statement fails
  later; the primary key refuses an id that a row already has (23505); the reference
  \<^verbatim>\<open>trip_id \<rightarrow> trips\<close> is checked last (23503). A statement that fails stores no row.
\<close>

fun db_query :: "query \<Rightarrow> database \<Rightarrow> (pg_error + int) \<times> database" where
  "db_query (InsertImage file_url tripId caption t1 t2 t3) d =
     (case bind_insert file_url tripId caption t1 t2 t3 of
        Inl e \<Rightarrow> (Inl e, d)
      | Inr v \<Rightarrow>
          (let new_id = images_id_seq d;
               d' = d\<lparr>images_id_seq := new_id + 1\<rparr>
           in if 2147483647 < new_id then (Inl sequence_generator_limit_exceeded, d)
              else if new_id \<in> set (map images_id (images d)) then (Inl unique_violation, d')
              else if v_trip_id v \<notin> set (map trips_id (trips d))
              then (Inl foreign_key_violation, d')
              else (Inr new_id,
                    d'\<lparr>images := images d @
                       [\<lparr>images_id = new_id, images_file_url = v_file_url v,
                         images_trip_id = Some (v_trip_id v),
                         images_caption = Some (v_caption v),
                         images_tag1 = v_tag1 v, images_tag2 = v_tag2 v,
                         images_tag3 = v_tag3 v\<rparr>]\<rparr>)))"

declare db_query.simps [simp del]

text \<open>The sequence can give an id that no row has; and the tag columns of a stored row.\<close>

definition id_available :: "database \<Rightarrow> bool" where
  "id_available d =
     (images_id_seq d \<le> 2147483647 \<and> images_id_seq d \<notin> set (map images_id (images d)))"

definition tag_columns :: "images_row \<Rightarrow> string option list" where
  "tag_columns r = [images_tag1 r, images_tag2 r, images_tag3 r]"


section \<open>The world a request runs in\<close>

record annotation =
  description :: string

record s3_params =
  Bucket :: string
  Key :: string
  Body :: buffer
  ContentType :: string

text \<open>
  The external services answer as the environment says: the two detections of the Vision
  client give the annotation array of the result (\<^verbatim>\<open>undefined\<close> is \<open>None\<close>) or fail, the
  upload gives the \<^verbatim>\<open>Location\<close> of the object or fails, and the clock gives \<^verbatim>\<open>Date.now()\<close>.
\<close>

record env =
  vision_landmarkDetection :: "buffer \<Rightarrow> error + annotation list option"
  vision_labelDetection :: "buffer \<Rightarrow> error + annotation list option"
  s3_upload :: "s3_params \<Rightarrow> error + string"
  Date_now :: nat

datatype call =
    VisionLandmark buffer
  | VisionLabel buffer
  | S3Upload s3_params
  | DbQuery query

datatype console_line =
    ConsoleLog string
  | ConsoleError error

text \<open>
  What a request can change: the database, the calls made to the external services (in
  order), and the lines written to the console.
\<close>

record world =
  db :: database
  calls :: "call list"
  console :: "console_line list"


section \<open>\<^verbatim>\<open>models/trip.js\<close>: \<^verbatim>\<open>Trip.addImage\<close>\<close>

record tagData =
  tag1 :: "string option"
  tag2 :: "string option"
  tag3 :: "string option"
  tag4 :: "string option"
  tag5 :: "string option"

record imageData = tagData +
  file_url :: string
  caption :: string

text \<open>
  \<^verbatim>\<open>addImage\<close> destructures \<^verbatim>\<open>file_url, caption, tag1, tag2, tag3\<close> from the image, runs the
  one \<^verbatim>\<open>INSERT\<close> and returns the first row of the result. An error of the query is
  thrown to the caller as it is.
\<close>

definition addImage :: "string \<Rightarrow> imageData \<Rightarrow> world \<Rightarrow> (error + int) \<times> world" where
  "addImage tripId img w =
     (let q = InsertImage (file_url img) tripId (caption img)
                (tag1 img) (tag2 img) (tag3 img);
          w1 = w\<lparr>calls := calls w @ [DbQuery q]\<rparr>
      in case db_query q (db w1) of
           (Inl e, d) \<Rightarrow> (Inl (DatabaseError e), w1\<lparr>db := d\<rparr>)
         | (Inr imageId, d) \<Rightarrow> (Inr imageId, w1\<lparr>db := d\<rparr>))"


section \<open>\<^verbatim>\<open>routes/trips.js\<close>: \<^verbatim>\<open>POST /trips/:id\<close>\<close>

record multer_file =
  originalname :: "string option"
  buffer :: "buffer option"
  mimetype :: "string option"

text \<open>
  The request: \<^verbatim>\<open>req.params.id\<close> (a string), \<^verbatim>\<open>req.file\<close> and \<^verbatim>\<open>req.body.caption\<close>.
\<close>

record request =
  req_params_id :: string
  req_file :: "multer_file option"
  req_body_caption :: "string option"

text \<open>
  How the handler ends: it sends a response with a status, it hands an error to \<^verbatim>\<open>next\<close>,
  or an awaited call throws outside any \<^verbatim>\<open>try\<close>, so that the promise of the handler is
  rejected and the handler itself neither responds nor calls \<^verbatim>\<open>next\<close>.
\<close>

datatype outcome =
    Responded nat string
  | NextCalled error
  | Rejected error

definition landmarkDetection ::
  "env \<Rightarrow> buffer \<Rightarrow> world \<Rightarrow> (error + annotation list option) \<times> world" where
  "landmarkDetection e img w =
     (vision_landmarkDetection e img, w\<lparr>calls := calls w @ [VisionLandmark img]\<rparr>)"

definition labelDetection ::
  "env \<Rightarrow> buffer \<Rightarrow> world \<Rightarrow> (error + string list) \<times> world" where
  "labelDetection e img w =
     (let w1 = w\<lparr>calls := calls w @ [VisionLabel img]\<rparr>
      in case vision_labelDetection e img of
           Inl err \<Rightarrow> (Inl err, w1)
         | Inr None \<Rightarrow> (Inl (TypeError ''labels.map''), w1)
         | Inr (Some labels) \<Rightarrow> (Inr (map description labels), w1))"

text \<open>
  The tag logic of the handler (the \<^verbatim>\<open>if\<close> that assigns \<^verbatim>\<open>tagData\<close>), from the landmark
  array (\<open>None\<close> when it is \<^verbatim>\<open>undefined\<close>) and the label strings. The branch of a found
  landmark writes a line to the console.
\<close>

definition resolve_tagData ::
  "annotation list option \<Rightarrow> string list \<Rightarrow> world \<Rightarrow> tagData \<times> world" where
  "resolve_tagData ldmkArray tags w =
     (if ldmkArray = None \<or> length (the ldmkArray) = 0
      then (\<lparr>tag1 = js_index tags 0, tag2 = js_index tags 1, tag3 = js_index tags 2,
             tag4 = js_index tags 3, tag5 = js_index tags 4\<rparr>, w)
      else (\<lparr>tag1 = Some (description (the ldmkArray ! 0)), tag2 = js_index tags 0,
             tag3 = js_index tags 1, tag4 = js_index tags 2, tag5 = js_index tags 3\<rparr>,
            w\<lparr>console := console w @ [ConsoleLog ''Found Landmark'']\<rparr>))"

text \<open>The callback given to \<^verbatim>\<open>s3.upload\<close>.\<close>

definition upload_callback ::
  "string \<Rightarrow> string \<Rightarrow> tagData \<Rightarrow> error + string \<Rightarrow> world \<Rightarrow> outcome \<times> world" where
  "upload_callback tripId cap td res w =
     (case res of
        Inl err \<Rightarrow>
          (Responded 500 ''Error uploading image to S3'',
           w\<lparr>console := console w @ [ConsoleError err]\<rparr>)
      | Inr location \<Rightarrow>
          (let imageData = \<lparr>tag1 = tag1 td, tag2 = tag2 td, tag3 = tag3 td,
                             tag4 = tag4 td, tag5 = tag5 td,
                             file_url = location, caption = cap\<rparr>
           in case addImage tripId imageData w of
                (Inl err, w1) \<Rightarrow> (NextCalled err, w1)
              | (Inr imageId, w1) \<Rightarrow>
                  (Responded 201 (''File uploaded successfully. URL: '' @ location), w1)))"

text \<open>The \<^verbatim>\<open>params\<close> of the upload: the key is the folder, the file name and the clock.\<close>

definition params :: "env \<Rightarrow> multer_file \<Rightarrow> s3_params" where
  "params e file =
     \<lparr>Bucket = ''traveler-capstone-images'',
      Key = ''tripimages/'' @ the (originalname file) @ ''-'' @ toString (Date_now e),
      Body = the (buffer file),
      ContentType = the (mimetype file)\<rparr>"

text \<open>
  The handler: the three checks, the two detections (both awaited, outside any \<^verbatim>\<open>try\<close>),
  the tags, the upload and its callback.
\<close>

definition post_trip_image :: "env \<Rightarrow> request \<Rightarrow> world \<Rightarrow> outcome \<times> world" where
  "post_trip_image e req w =
     (case req_file req of
        None \<Rightarrow> (Responded 400 ''No file uploaded.'', w)
      | Some file \<Rightarrow>
          if \<not> truthy (req_body_caption req)
          then (Responded 400 ''No caption for file.'', w)
          else if \<not> truthy (originalname file) \<or> buffer file = None \<or> \<not> truthy (mimetype file)
          then (Responded 400 ''Uploaded file is missing required properties.'', w)
          else
            (case landmarkDetection e (the (buffer file)) w of
               (Inl err, w1) \<Rightarrow> (Rejected err, w1)
             | (Inr ldmkArray, w1) \<Rightarrow>
            (case labelDetection e (the (buffer file)) w1 of
               (Inl err, w2) \<Rightarrow> (Rejected err, w2)
             | (Inr tags, w2) \<Rightarrow>
            (case resolve_tagData ldmkArray tags w2 of
               (td, w3) \<Rightarrow>
                 (let w4 = w3\<lparr>calls := calls w3 @ [S3Upload (params e file)]\<rparr>
                  in upload_callback (req_params_id req) (the (req_body_caption req)) td
                       (s3_upload e (params e file)) w4)))))"


section \<open>\<^verbatim>\<open>models/user.js\<close>: \<^verbatim>\<open>User.authenticate\<close>\<close>

text \<open>
  A row of a query result is a JavaScript object: its properties in the order of the
  \<^verbatim>\<open>SELECT\<close> list, with \<^verbatim>\<open>null\<close> for a \<^verbatim>\<open>NULL\<close> column. Reading a property that is
  not there gives \<^verbatim>\<open>undefined\<close> (\<open>None\<close>); \<^verbatim>\<open>delete\<close> removes the property.
\<close>

datatype js_value = JsNull | JsString string

type_synonym js_object = "(string \<times> js_value) list"

definition js_get :: "js_object \<Rightarrow> string \<Rightarrow> js_value option" where
  "js_get obj k = map_of obj k"

definition js_delete :: "string \<Rightarrow> js_object \<Rightarrow> js_object" where
  "js_delete k obj = filter (\<lambda>p. fst p \<noteq> k) obj"

definition nullable :: "string option \<Rightarrow> js_value" where
  "nullable v = (case v of None \<Rightarrow> JsNull | Some s \<Rightarrow> JsString s)"

text \<open>
  \<^verbatim>\<open>SELECT username, password, first_name AS "firstName", last_name AS "lastName",
     profile_image AS "profImage", about FROM users WHERE username = $1\<close>
\<close>

definition select_user :: "database \<Rightarrow> string \<Rightarrow> js_object list" where
  "select_user d username =
     map (\<lambda>u. [(''username'', JsString (users_username u)),
                (''password'', JsString (users_password u)),
                (''firstName'', nullable (users_first_name u)),
                (''lastName'', nullable (users_last_name u)),
                (''profImage'', nullable (users_profile_image u)),
                (''about'', nullable (users_about u))])
         (filter (\<lambda>u. users_username u = username) (users d))"

text \<open>
  \<^verbatim>\<open>bcrypt.compare\<close> is a parameter. It rejects when the hash is not a string, which the
  \<^verbatim>\<open>NOT NULL\<close> password column excludes.
\<close>

definition authenticate ::
  "(string \<Rightarrow> string \<Rightarrow> bool) \<Rightarrow> database \<Rightarrow> string \<Rightarrow> string \<Rightarrow> error + js_object" where
  "authenticate bcrypt_compare d username password =
     (case js_index (select_user d username) 0 of
        None \<Rightarrow> Inl (UnauthorizedError ''Invalid username/password'')
      | Some user \<Rightarrow>
          (case js_get user ''password'' of
             Some (JsString hash) \<Rightarrow>
               if bcrypt_compare password hash then Inr (js_delete ''password'' user)
               else Inl (UnauthorizedError ''Invalid username/password'')
           | _ \<Rightarrow> Inl (SdkError ''data and hash arguments required'')))"


section \<open>The tag policy in the words of the specification\<close>

text \<open>
  A tag set is five slots. With a landmark, slot 1 is the description of the first
  landmark and slots 2 to 5 are the first four labels; without one, the slots are the
  first five labels. Slots for which no label is left are absent.
\<close>

definition first_labels :: "nat \<Rightarrow> string list \<Rightarrow> string option list" where
  "first_labels n labels = map Some (take n labels) @ replicate (n - length labels) None"

definition spec_TagSet :: "annotation list \<Rightarrow> string list \<Rightarrow> string option list" where
  "spec_TagSet landmarks labels =
     (case landmarks of
        [] \<Rightarrow> first_labels 5 labels
      | l # ls \<Rightarrow> Some (description l) # first_labels 4 labels)"

definition slots :: "'a tagData_scheme \<Rightarrow> string option list" where
  "slots td = [tag1 td, tag2 td, tag3 td, tag4 td, tag5 td]"

section \<open>Example data\<close>

text \<open>
  A database with one user and one trip, a request that uploads a photo to that trip, and
  an environment in which the classifier sees the Eiffel Tower and the upload succeeds.
\<close>

definition db0 :: database where
  "db0 = \<lparr>users = [\<lparr>users_id = 1, users_username = ''ada'', users_password = ''$2b$12$hash'',
                       users_first_name = Some ''Ada'', users_last_name = None,
                       users_profile_image = None, users_about = None\<rparr>],
          trips = [\<lparr>trips_id = 1, trips_user_id = Some 1, trips_title = ''Paris''\<rparr>],
          images = [],
          images_id_seq = 1\<rparr>"

definition world0 :: world where
  "world0 = \<lparr>db = db0, calls = [], console = []\<rparr>"

definition photo :: multer_file where
  "photo = \<lparr>originalname = Some ''eiffel.jpg'', buffer = Some [0xFF, 0xD8],
            mimetype = Some ''image/jpeg''\<rparr>"

definition upload_request :: request where
  "upload_request = \<lparr>req_params_id = ''1'', req_file = Some photo,
                     req_body_caption = Some ''Evening in Paris''\<rparr>"

definition env_eiffel :: env where
  "env_eiffel =
     \<lparr>vision_landmarkDetection = (\<lambda>b. Inr (Some [\<lparr>description = ''Eiffel Tower''\<rparr>])),
      vision_labelDetection =
        (\<lambda>b. Inr (Some (map (\<lambda>s. \<lparr>description = s\<rparr>)
                  [''tower'', ''sky'', ''architecture'', ''landmark'', ''europe'']))),
      s3_upload = (\<lambda>p. Inr (''https://s3.example/'' @ Key p)),
      Date_now = 1700000000000\<rparr>"

text \<open>
  The same environment with an upload that times out, and with a classifier that finds
  nothing; and a password check that accepts one password for one hash.
\<close>

definition env_upload_fails :: env where
  "env_upload_fails = env_eiffel\<lparr>s3_upload := (\<lambda>p. Inl (SdkError ''RequestTimeout''))\<rparr>"

definition env_nothing_seen :: env where
  "env_nothing_seen =
     env_eiffel\<lparr>vision_landmarkDetection := (\<lambda>b. Inr (Some [])),
                vision_labelDetection := (\<lambda>b. Inr (Some []))\<rparr>"

definition credentials_match :: "string \<Rightarrow> string \<Rightarrow> bool" where
  "credentials_match password hash = (password = ''opensesame'' \<and> hash = ''$2b$12$hash'')"


section \<open>The tags of an image\<close>

lemma js_index_first_labels4:
  "[js_index xs 0, js_index xs 1, js_index xs 2, js_index xs 3] = first_labels 4 xs"
proof (cases xs)
  case Nil
  then show ?thesis by (simp add: js_index_def first_labels_def numeral_eq_Suc)
next
  case c1: (Cons a as)
  show ?thesis
  proof (cases as)
    case Nil
    with c1 show ?thesis by (simp add: js_index_def first_labels_def numeral_eq_Suc)
  next
    case c2: (Cons b bs)
    show ?thesis
    proof (cases bs)
      case Nil
      with c1 c2 show ?thesis by (simp add: js_index_def first_labels_def numeral_eq_Suc)
    next
      case (Cons c cs)
      with c1 c2 show ?thesis
        by (cases cs) (simp_all add: js_index_def first_labels_def numeral_eq_Suc)
    qed
  qed
qed

lemma js_index_Cons_Suc: "js_index (x # xs) (Suc n) = js_index xs n"
  by (simp add: js_index_def)

lemma js_index_Cons_0: "js_index (x # xs) 0 = Some x"
  by (simp add: js_index_def)

lemma js_index_Nil: "js_index [] n = None"
  by (simp add: js_index_def)

lemma first_labels_Cons: "first_labels (Suc n) (x # xs) = Some x # first_labels n xs"
  by (simp add: first_labels_def)

lemma first_labels_Nil: "first_labels n [] = replicate n None"
  by (simp add: first_labels_def)

lemma js_index_first_labels5:
  "[js_index xs 0, js_index xs 1, js_index xs 2, js_index xs 3, js_index xs 4] =
   first_labels 5 xs"
proof (cases xs)
  case Nil
  then show ?thesis by (simp add: js_index_Nil first_labels_Nil numeral_eq_Suc)
next
  case (Cons a as)
  have "[js_index as 0, js_index as 1, js_index as 2, js_index as 3] = first_labels 4 as"
    by (rule js_index_first_labels4)
  then have "[js_index xs 1, js_index xs 2, js_index xs 3, js_index xs 4] = first_labels 4 as"
    using Cons by (simp add: numeral_eq_Suc js_index_Cons_Suc)
  with Cons show ?thesis
    by (simp add: js_index_Cons_0 numeral_eq_Suc first_labels_Cons)
qed

lemma resolve_tagData_landmark:
  "fst (resolve_tagData (Some (l # ls)) tags w) =
     \<lparr>tag1 = Some (description l), tag2 = js_index tags 0, tag3 = js_index tags 1,
      tag4 = js_index tags 2, tag5 = js_index tags 3\<rparr>"
  by (simp add: resolve_tagData_def)

lemma resolve_tagData_no_landmark:
  "ldmkArray = None \<or> ldmkArray = Some [] \<Longrightarrow>
   fst (resolve_tagData ldmkArray tags w) =
     \<lparr>tag1 = js_index tags 0, tag2 = js_index tags 1, tag3 = js_index tags 2,
      tag4 = js_index tags 3, tag5 = js_index tags 4\<rparr>"
  by (auto simp add: resolve_tagData_def)

lemma resolve_tagData_frame:
  "db (snd (resolve_tagData ldmkArray tags w)) = db w"
  "calls (snd (resolve_tagData ldmkArray tags w)) = calls w"
  by (simp_all add: resolve_tagData_def)

lemma resolve_tagData_world_indep:
  "fst (resolve_tagData ldmkArray tags w1) = fst (resolve_tagData ldmkArray tags w2)"
  by (simp add: resolve_tagData_def)

lemma resolve_tagData_console_no_landmark:
  "ldmkArray = None \<or> ldmkArray = Some [] \<Longrightarrow> snd (resolve_tagData ldmkArray tags w) = w"
  by (auto simp add: resolve_tagData_def)

text \<open>
  C2: when the landmark array is not empty, the tag set the handler computes has the
  description of the first landmark in \<^verbatim>\<open>tag1\<close> and the first four labels, in their
  order, in \<^verbatim>\<open>tag2\<close> to \<^verbatim>\<open>tag5\<close>; a slot for which no label is left is absent. This is
  the tag set of the specification.
\<close>

theorem C2_landmark_tags:
  assumes "ldmkArray = Some landmarks" and "landmarks \<noteq> []"
  shows "tag1 (fst (resolve_tagData ldmkArray tags w)) = Some (description (hd landmarks)) \<and>
         [tag2 (fst (resolve_tagData ldmkArray tags w)), tag3 (fst (resolve_tagData ldmkArray tags w)),
          tag4 (fst (resolve_tagData ldmkArray tags w)), tag5 (fst (resolve_tagData ldmkArray tags w))] =
           map Some (take 4 tags) @ replicate (4 - length tags) None \<and>
         slots (fst (resolve_tagData ldmkArray tags w)) = spec_TagSet landmarks tags"
proof -
  from assms obtain l ls where l: "ldmkArray = Some (l # ls)" "landmarks = l # ls"
    by (cases landmarks) auto
  have "[js_index tags 0, js_index tags 1, js_index tags 2, js_index tags 3] =
        map Some (take 4 tags) @ replicate (4 - length tags) None"
    using js_index_first_labels4 [of tags] by (simp add: first_labels_def)
  with l show ?thesis
    by (simp add: resolve_tagData_landmark slots_def spec_TagSet_def first_labels_def)
qed

theorem C2_landmark_tags_witness:
  "slots (fst (resolve_tagData (Some [\<lparr>description = ''Eiffel Tower''\<rparr>])
            [''tower'', ''sky'', ''architecture'', ''landmark'', ''europe''] world0)) =
     [Some ''Eiffel Tower'', Some ''tower'', Some ''sky'', Some ''architecture'', Some ''landmark'']
   \<and> slots (fst (resolve_tagData (Some [\<lparr>description = ''Eiffel Tower''\<rparr>])
            [''tower'', ''sky''] world0)) =
     [Some ''Eiffel Tower'', Some ''tower'', Some ''sky'', None, None]"
  using C2_landmark_tags [of "Some [\<lparr>description = ''Eiffel Tower''\<rparr>]"
          "[\<lparr>description = ''Eiffel Tower''\<rparr>]"
          "[''tower'', ''sky'', ''architecture'', ''landmark'', ''europe'']" world0]
        C2_landmark_tags [of "Some [\<lparr>description = ''Eiffel Tower''\<rparr>]"
          "[\<lparr>description = ''Eiffel Tower''\<rparr>]" "[''tower'', ''sky'']" world0]
  by (simp add: spec_TagSet_def first_labels_def numeral_eq_Suc)

text \<open>
  C6: when the landmark array is empty (or missing), the tag set the handler computes is
  the first five labels, in their order; a slot for which no label is left is absent. Of
  six labels the first five are kept. This is the tag set of the specification.
\<close>

theorem C6_label_tags:
  assumes "ldmkArray = None \<or> ldmkArray = Some []"
  shows "slots (fst (resolve_tagData ldmkArray tags w)) =
           map Some (take 5 tags) @ replicate (5 - length tags) None \<and>
         slots (fst (resolve_tagData ldmkArray tags w)) = spec_TagSet [] tags \<and>
         slots (fst (resolve_tagData ldmkArray [a, b, c, d, e, f] w)) =
           [Some a, Some b, Some c, Some d, Some e]"
proof -
  have "\<And>xs. slots (fst (resolve_tagData ldmkArray xs w)) = first_labels 5 xs"
    using assms js_index_first_labels5
    by (simp add: resolve_tagData_no_landmark slots_def)
  then show ?thesis
    by (simp add: spec_TagSet_def first_labels_def)
qed

theorem C6_label_tags_witness:
  "slots (fst (resolve_tagData (Some []) [''beach'', ''sea'', ''sand''] world0)) =
     [Some ''beach'', Some ''sea'', Some ''sand'', None, None]
   \<and> slots (fst (resolve_tagData None [''a'', ''b'', ''c'', ''d'', ''e'', ''f''] world0)) =
     [Some ''a'', Some ''b'', Some ''c'', Some ''d'', Some ''e'']"
  using C6_label_tags [of "Some []" "[''beach'', ''sea'', ''sand'']" world0]
        C6_label_tags [where ldmkArray = None and tags = "[]" and w = world0 and a = "''a''"
          and b = "''b''" and c = "''c''" and d = "''d''" and e = "''e''" and f = "''f''"]
  by (simp add: numeral_eq_Suc)


section \<open>The insert and \<^verbatim>\<open>Trip.addImage\<close>\<close>

lemma varchar25_None: "varchar25 None = Inr None"
  by (simp add: varchar25_def)

lemma varchar25_short: "length s \<le> 25 \<Longrightarrow> varchar25 (Some s) = Inr (Some s)"
  by (simp add: varchar25_def)

lemma text_param_accepts: "CHR 0x00 \<notin> set s \<Longrightarrow> text_param s = Inr s"
  by (simp add: text_param_def)

lemma text_param_Inr: "text_param s = Inr u \<Longrightarrow> u = s"
  by (simp add: text_param_def split: if_splits)

lemma null_or_text_param_Inr: "null_or_text_param t = Inr p \<Longrightarrow> p = t"
  by (auto simp add: null_or_text_param_def text_param_def split: option.splits if_splits)

lemma null_or_text_param_accepts:
  "null_or_text_param None = Inr None"
  "CHR 0x00 \<notin> set s \<Longrightarrow> null_or_text_param (Some s) = Inr (Some s)"
  by (simp_all add: null_or_text_param_def text_param_def)

lemma bind_insert_accepts:
  assumes "text_param url = Inr url" "int4_param tripId = Inr i" "text_param cap = Inr cap"
    and "null_or_text_param t1 = Inr t1" "null_or_text_param t2 = Inr t2"
      "null_or_text_param t3 = Inr t3"
    and "varchar25 t1 = Inr c1" "varchar25 t2 = Inr c2" "varchar25 t3 = Inr c3"
  shows "bind_insert url tripId cap t1 t2 t3 =
           Inr \<lparr>v_file_url = url, v_trip_id = i, v_caption = cap,
                v_tag1 = c1, v_tag2 = c2, v_tag3 = c3\<rparr>"
  using assms by (simp add: bind_insert_def)

lemma bind_insert_values:
  assumes "bind_insert url tripId cap t1 t2 t3 = Inr v"
  shows "v_file_url v = url" "int4_param tripId = Inr (v_trip_id v)" "v_caption v = cap"
    "varchar25 t1 = Inr (v_tag1 v)" "varchar25 t2 = Inr (v_tag2 v)"
    "varchar25 t3 = Inr (v_tag3 v)"
  using assms
  by (auto simp add: bind_insert_def split: sum.splits
      dest!: text_param_Inr null_or_text_param_Inr)

lemma db_query_refused:
  "bind_insert url tripId cap t1 t2 t3 = Inl e \<Longrightarrow>
   db_query (InsertImage url tripId cap t1 t2 t3) d = (Inl e, d)"
  by (simp add: db_query.simps)

lemma db_query_stored:
  assumes "bind_insert url tripId cap t1 t2 t3 = Inr v" and "id_available d"
    and "v_trip_id v \<in> set (map trips_id (trips d))"
  shows "db_query (InsertImage url tripId cap t1 t2 t3) d =
           (Inr (images_id_seq d),
            d\<lparr>images_id_seq := images_id_seq d + 1,
              images := images d @
                [\<lparr>images_id = images_id_seq d, images_file_url = v_file_url v,
                  images_trip_id = Some (v_trip_id v), images_caption = Some (v_caption v),
                  images_tag1 = v_tag1 v, images_tag2 = v_tag2 v,
                  images_tag3 = v_tag3 v\<rparr>]\<rparr>)"
  using assms by (simp add: db_query.simps Let_def id_available_def)

lemma db_query_foreign_key:
  assumes "bind_insert url tripId cap t1 t2 t3 = Inr v" and "id_available d"
    and "v_trip_id v \<notin> set (map trips_id (trips d))"
  shows "db_query (InsertImage url tripId cap t1 t2 t3) d =
           (Inl foreign_key_violation, d\<lparr>images_id_seq := images_id_seq d + 1\<rparr>)"
  using assms by (simp add: db_query.simps Let_def id_available_def)

lemma db_query_failed:
  "fst (db_query q d) = Inl e \<Longrightarrow> images (snd (db_query q d)) = images d"
  by (cases q) (auto simp add: db_query.simps Let_def split: sum.splits if_splits)

lemma db_query_accepted:
  assumes "fst (db_query (InsertImage url tripId cap t1 t2 t3) d) = Inr i"
  shows "\<exists>v. bind_insert url tripId cap t1 t2 t3 = Inr v \<and> i = images_id_seq d \<and>
             v_trip_id v \<in> set (map trips_id (trips d)) \<and>
             images (snd (db_query (InsertImage url tripId cap t1 t2 t3) d)) =
               images d @
                 [\<lparr>images_id = i, images_file_url = v_file_url v,
                   images_trip_id = Some (v_trip_id v), images_caption = Some (v_caption v),
                   images_tag1 = v_tag1 v, images_tag2 = v_tag2 v,
                   images_tag3 = v_tag3 v\<rparr>]"
  using assms
  by (auto simp add: db_query.simps Let_def split: sum.splits if_splits)

lemma db_query_no_trip:
  assumes "int4_param tripId = Inr i" and "i \<notin> set (map trips_id (trips d))"
  shows "\<exists>e. fst (db_query (InsertImage url tripId cap t1 t2 t3) d) = Inl e"
proof (cases "fst (db_query (InsertImage url tripId cap t1 t2 t3) d)")
  case (Inl e)
  then show ?thesis by blast
next
  case (Inr j)
  from db_query_accepted [OF Inr] obtain v
    where v: "bind_insert url tripId cap t1 t2 t3 = Inr v"
      and "v_trip_id v \<in> set (map trips_id (trips d))"
    by blast
  with bind_insert_values(2) [OF v] assms show ?thesis by simp
qed

lemma db_query_untagged_accepted:
  assumes "CHR 0x00 \<notin> set url" and "int4_param tripId = Inr i" and "CHR 0x00 \<notin> set cap"
    and "id_available d" and "i \<in> set (map trips_id (trips d))"
  shows "fst (db_query (InsertImage url tripId cap None None None) d) = Inr (images_id_seq d)"
proof -
  have "bind_insert url tripId cap None None None =
          Inr \<lparr>v_file_url = url, v_trip_id = i, v_caption = cap,
               v_tag1 = None, v_tag2 = None, v_tag3 = None\<rparr>"
    using assms(1-3)
    by (intro bind_insert_accepts text_param_accepts null_or_text_param_accepts(1)
        varchar25_None)
  from db_query_stored [OF this assms(4)] assms(5) show ?thesis by simp
qed

lemma addImage_calls:
  "calls (snd (addImage tripId img w)) =
     calls w @ [DbQuery (InsertImage (file_url img) tripId (caption img)
                           (tag1 img) (tag2 img) (tag3 img))]"
  by (simp add: addImage_def Let_def split: prod.split sum.split)

lemma addImage_console: "console (snd (addImage tripId img w)) = console w"
  by (simp add: addImage_def Let_def split: prod.split sum.split)

lemma addImage_db:
  "db (snd (addImage tripId img w)) =
     snd (db_query (InsertImage (file_url img) tripId (caption img)
                      (tag1 img) (tag2 img) (tag3 img)) (db w))"
  by (simp add: addImage_def Let_def split: prod.split sum.split)

lemma addImage_result:
  "fst (addImage tripId img w) =
     (case fst (db_query (InsertImage (file_url img) tripId (caption img)
                            (tag1 img) (tag2 img) (tag3 img)) (db w)) of
        Inl e \<Rightarrow> Inl (DatabaseError e)
      | Inr imageId \<Rightarrow> Inr imageId)"
  by (simp add: addImage_def Let_def split: prod.split sum.split)

section \<open>The handler\<close>

lemma truthy_None: "\<not> truthy None"
  by (simp add: truthy_def)

lemma upload_callback_error:
  "upload_callback tripId cap td (Inl err) w =
     (Responded 500 ''Error uploading image to S3'',
      w\<lparr>console := console w @ [ConsoleError err]\<rparr>)"
  by (simp add: upload_callback_def)

lemma upload_callback_uploaded:
  "upload_callback tripId cap td (Inr location) w =
     (let r = addImage tripId
                \<lparr>tag1 = tag1 td, tag2 = tag2 td, tag3 = tag3 td, tag4 = tag4 td,
                 tag5 = tag5 td, file_url = location, caption = cap\<rparr> w
      in (case fst r of
            Inl err \<Rightarrow> NextCalled err
          | Inr imageId \<Rightarrow> Responded 201 (''File uploaded successfully. URL: '' @ location),
          snd r))"
  by (simp add: upload_callback_def Let_def split: prod.split sum.split)

lemma post_trip_image_rejected_file:
  "req_file req = None \<Longrightarrow> post_trip_image e req w = (Responded 400 ''No file uploaded.'', w)"
  by (simp add: post_trip_image_def)

lemma post_trip_image_rejected_caption:
  "req_file req = Some f \<Longrightarrow> \<not> truthy (req_body_caption req) \<Longrightarrow>
   post_trip_image e req w = (Responded 400 ''No caption for file.'', w)"
  by (simp add: post_trip_image_def)

lemma post_trip_image_rejected_properties:
  "req_file req = Some f \<Longrightarrow> truthy (req_body_caption req) \<Longrightarrow>
   \<not> truthy (originalname f) \<or> buffer f = None \<or> \<not> truthy (mimetype f) \<Longrightarrow>
   post_trip_image e req w =
     (Responded 400 ''Uploaded file is missing required properties.'', w)"
  by (simp add: post_trip_image_def)

lemma post_trip_image_classified:
  assumes "req_file req = Some f" "truthy (req_body_caption req)" "truthy (originalname f)"
    "buffer f = Some b" "truthy (mimetype f)"
    and "vision_landmarkDetection e b = Inr ldmkArray"
    and "vision_labelDetection e b = Inr (Some labels)"
  shows "post_trip_image e req w =
     (let r = resolve_tagData ldmkArray (map description labels)
                (w\<lparr>calls := calls w @ [VisionLandmark b, VisionLabel b]\<rparr>)
      in upload_callback (req_params_id req) (the (req_body_caption req)) (fst r)
           (s3_upload e (params e f))
           ((snd r)\<lparr>calls := calls (snd r) @ [S3Upload (params e f)]\<rparr>))"
  using assms
  by (simp add: post_trip_image_def landmarkDetection_def labelDetection_def Let_def
      split: prod.split)

lemma post_trip_image_uploaded:
  assumes "req_file req = Some f" "truthy (req_body_caption req)" "truthy (originalname f)"
    "buffer f = Some b" "truthy (mimetype f)"
    and "vision_landmarkDetection e b = Inr ldmkArray"
    and "vision_labelDetection e b = Inr (Some labels)"
    and "s3_upload e (params e f) = Inr location"
    and "td = fst (resolve_tagData ldmkArray (map description labels) w)"
    and "q = InsertImage location (req_params_id req) (the (req_body_caption req))
               (tag1 td) (tag2 td) (tag3 td)"
  shows "fst (post_trip_image e req w) =
           (case fst (db_query q (db w)) of
              Inl pe \<Rightarrow> NextCalled (DatabaseError pe)
            | Inr imageId \<Rightarrow> Responded 201 (''File uploaded successfully. URL: '' @ location))"
    and "db (snd (post_trip_image e req w)) = snd (db_query q (db w))"
    and "calls (snd (post_trip_image e req w)) =
           calls w @ [VisionLandmark b, VisionLabel b, S3Upload (params e f), DbQuery q]"
proof -
  let ?w2 = "w\<lparr>calls := calls w @ [VisionLandmark b, VisionLabel b]\<rparr>"
  have td: "fst (resolve_tagData ldmkArray (map description labels) ?w2) = td"
    unfolding assms(9) by (rule resolve_tagData_world_indep)
  show "fst (post_trip_image e req w) =
           (case fst (db_query q (db w)) of
              Inl pe \<Rightarrow> NextCalled (DatabaseError pe)
            | Inr imageId \<Rightarrow> Responded 201 (''File uploaded successfully. URL: '' @ location))"
    using assms(8)
    by (simp add: post_trip_image_classified [OF assms(1-7)] Let_def td assms(10)
        upload_callback_uploaded addImage_result resolve_tagData_frame split: sum.split)
  show "db (snd (post_trip_image e req w)) = snd (db_query q (db w))"
    using assms(8)
    by (simp add: post_trip_image_classified [OF assms(1-7)] Let_def td assms(10)
        upload_callback_uploaded addImage_db resolve_tagData_frame)
  show "calls (snd (post_trip_image e req w)) =
           calls w @ [VisionLandmark b, VisionLabel b, S3Upload (params e f), DbQuery q]"
    using assms(8)
    by (simp add: post_trip_image_classified [OF assms(1-7)] Let_def td assms(10)
        upload_callback_uploaded addImage_calls resolve_tagData_frame)
qed

section \<open>The example data\<close>

lemma example_world: "calls world0 = []" "console world0 = []" "db world0 = db0"
  by (simp_all add: world0_def)

lemma example_request_valid:
  "req_file upload_request = Some photo" "truthy (req_body_caption upload_request)"
  "truthy (originalname photo)" "buffer photo = Some [0xFF, 0xD8]" "truthy (mimetype photo)"
  by (simp_all add: upload_request_def photo_def truthy_def)

lemma example_database:
  "id_available db0" "images db0 = []" "images_id_seq db0 = 1"
  "1 \<in> set (map trips_id (trips db0))" "99 \<notin> set (map trips_id (trips db0))"
  by (simp_all add: db0_def id_available_def)

lemma example_trip_id:
  "req_params_id upload_request = ''1''" "int4_param ''1'' = Inr 1" "int4_param ''99'' = Inr 99"
  by (simp_all add: upload_request_def int4_param_def text_param_def int4in_def is_space_def
      digit_def decimal_def Let_def)

lemma example_classifier:
  "vision_landmarkDetection env_eiffel b = Inr (Some [\<lparr>description = ''Eiffel Tower''\<rparr>])"
  "vision_labelDetection env_eiffel b =
     Inr (Some (map (\<lambda>s. \<lparr>description = s\<rparr>)
                 [''tower'', ''sky'', ''architecture'', ''landmark'', ''europe'']))"
  "vision_landmarkDetection env_upload_fails b = Inr (Some [\<lparr>description = ''Eiffel Tower''\<rparr>])"
  "vision_labelDetection env_upload_fails b =
     Inr (Some (map (\<lambda>s. \<lparr>description = s\<rparr>)
                 [''tower'', ''sky'', ''architecture'', ''landmark'', ''europe'']))"
  "vision_landmarkDetection env_nothing_seen b = Inr (Some [])"
  "vision_labelDetection env_nothing_seen b = Inr (Some [])"
  by (simp_all add: env_eiffel_def env_upload_fails_def env_nothing_seen_def)

lemma example_upload:
  "s3_upload env_upload_fails p = Inl (SdkError ''RequestTimeout'')"
  "s3_upload env_eiffel p = Inr (''https://s3.example/'' @ Key p)"
  "s3_upload env_nothing_seen p = Inr (''https://s3.example/'' @ Key p)"
  by (simp_all add: env_eiffel_def env_upload_fails_def env_nothing_seen_def)

lemma example_key:
  "Key (params env_eiffel photo) = ''tripimages/eiffel.jpg-1700000000000''"
  "Key (params env_nothing_seen photo) = ''tripimages/eiffel.jpg-1700000000000''"
  by (simp_all add: params_def env_eiffel_def env_nothing_seen_def photo_def toString.simps)

lemma example_url:
  "text_param ''https://s3.example/tripimages/eiffel.jpg-1700000000000'' =
     Inr ''https://s3.example/tripimages/eiffel.jpg-1700000000000''"
  "text_param ''Evening in Paris'' = Inr ''Evening in Paris''"
  by (simp_all add: text_param_def)

lemma example_tagData:
  "fst (resolve_tagData (Some [\<lparr>description = ''Eiffel Tower''\<rparr>])
         [''tower'', ''sky'', ''architecture'', ''landmark'', ''europe''] w) =
   \<lparr>tag1 = Some ''Eiffel Tower'', tag2 = Some ''tower'', tag3 = Some ''sky'',
    tag4 = Some ''architecture'', tag5 = Some ''landmark''\<rparr>"
  by (simp add: resolve_tagData_landmark js_index_def)


section \<open>The checks before any call\<close>

text \<open>
  C4: when the file, the caption or a required property of the file (original name,
  buffer, MIME type) is missing (\<^verbatim>\<open>undefined\<close>, or an empty string), the handler
  answers 400 and leaves the world as it was: no call to the classifier, to the object
  store or to the database has been made, and the database is unchanged.
\<close>

theorem C4_validation_fails_fast:
  assumes "req_file req = None \<or> \<not> truthy (req_body_caption req) \<or>
           (\<exists>f. req_file req = Some f \<and>
                (\<not> truthy (originalname f) \<or> buffer f = None \<or> \<not> truthy (mimetype f)))"
  shows "(fst (post_trip_image e req w) = Responded 400 ''No file uploaded.'' \<or>
          fst (post_trip_image e req w) = Responded 400 ''No caption for file.'' \<or>
          fst (post_trip_image e req w) =
            Responded 400 ''Uploaded file is missing required properties.'') \<and>
         snd (post_trip_image e req w) = w"
proof (cases "req_file req")
  case None
  then show ?thesis by (simp add: post_trip_image_rejected_file)
next
  case (Some f)
  show ?thesis
  proof (cases "truthy (req_body_caption req)")
    case False
    with Some show ?thesis by (simp add: post_trip_image_rejected_caption)
  next
    case True
    with Some assms
    have "\<not> truthy (originalname f) \<or> buffer f = None \<or> \<not> truthy (mimetype f)"
      by auto
    with Some True show ?thesis by (simp add: post_trip_image_rejected_properties)
  qed
qed

theorem C4_validation_fails_fast_witness:
  "fst (post_trip_image env_eiffel (upload_request\<lparr>req_body_caption := None\<rparr>) world0) =
     Responded 400 ''No caption for file.'' \<and>
   snd (post_trip_image env_eiffel (upload_request\<lparr>req_body_caption := None\<rparr>) world0) =
     world0 \<and>
   calls world0 = [] \<and> images (db world0) = []"
proof -
  have 1: "\<not> truthy (req_body_caption (upload_request\<lparr>req_body_caption := None\<rparr>))"
    by (simp add: truthy_None)
  have 2: "req_file (upload_request\<lparr>req_body_caption := None\<rparr>) = Some photo"
    by (simp add: upload_request_def)
  from C4_validation_fails_fast [of "upload_request\<lparr>req_body_caption := None\<rparr>"
      env_eiffel world0] 1
  have 3: "snd (post_trip_image env_eiffel (upload_request\<lparr>req_body_caption := None\<rparr>) world0) = world0"
    by simp
  have 4: "fst (post_trip_image env_eiffel (upload_request\<lparr>req_body_caption := None\<rparr>) world0) =
     Responded 400 ''No caption for file.''"
    using 1 2 by (simp add: post_trip_image_rejected_caption)
  show ?thesis using 3 4 by (simp add: world0_def db0_def)
qed


section \<open>A failed upload\<close>

text \<open>
  C5: when the upload to the object store fails, the handler answers 500, the database
  is as it was, and the calls made are the two detections and the upload: the insert of
  \<^verbatim>\<open>Trip.addImage\<close> is not among them.
\<close>

theorem C5_upload_failure_writes_no_row:
  assumes "req_file req = Some f" "truthy (req_body_caption req)" "truthy (originalname f)"
    "buffer f = Some b" "truthy (mimetype f)"
    and "vision_landmarkDetection e b = Inr ldmkArray"
    and "vision_labelDetection e b = Inr (Some labels)"
    and "s3_upload e (params e f) = Inl err"
  shows "fst (post_trip_image e req w) = Responded 500 ''Error uploading image to S3'' \<and>
         db (snd (post_trip_image e req w)) = db w \<and>
         calls (snd (post_trip_image e req w)) =
           calls w @ [VisionLandmark b, VisionLabel b, S3Upload (params e f)]"
  using assms(8)
  by (simp add: post_trip_image_classified [OF assms(1-7)] Let_def upload_callback_error
      resolve_tagData_frame)

theorem C5_upload_failure_writes_no_row_witness:
  "fst (post_trip_image env_upload_fails upload_request world0) =
     Responded 500 ''Error uploading image to S3'' \<and>
   images (db (snd (post_trip_image env_upload_fails upload_request world0))) = [] \<and>
   calls (snd (post_trip_image env_upload_fails upload_request world0)) =
     [VisionLandmark [0xFF, 0xD8], VisionLabel [0xFF, 0xD8],
      S3Upload (params env_upload_fails photo)]"
  using C5_upload_failure_writes_no_row [OF example_request_valid example_classifier(3,4)
      example_upload(1), of world0]
  by (simp add: world0_def db0_def)


section \<open>An image without tags\<close>

text \<open>
  C7: when the classifier finds no landmark and no label, every slot of the tag set is
  absent, and the request is not an error: the handler uploads the bytes of the file, under
  the key made of the folder, the file name and the clock and with the MIME type of the
  file, and, the upload and the insert succeeding, it answers 201 and has stored a row
  with the URL, the caption and no tag.
\<close>

theorem C7_untagged_image_is_stored:
  assumes "req_file req = Some f" and "req_body_caption req = Some cap" and "cap \<noteq> []"
    and "originalname f = Some name" and "name \<noteq> []" and "buffer f = Some b"
    and "mimetype f = Some mime" and "mime \<noteq> []"
    and "vision_landmarkDetection e b = Inr ldmkArray"
    and "ldmkArray = None \<or> ldmkArray = Some []"
    and "vision_labelDetection e b = Inr (Some [])"
    and "p = \<lparr>Bucket = ''traveler-capstone-images'',
              Key = ''tripimages/'' @ name @ ''-'' @ toString (Date_now e),
              Body = b, ContentType = mime\<rparr>"
    and "s3_upload e p = Inr location"
    and "int4_param (req_params_id req) = Inr tid"
    and "fst (db_query (InsertImage location (req_params_id req) cap None None None) (db w)) =
           Inr imageId"
  shows "slots (fst (resolve_tagData ldmkArray [] w)) = [None, None, None, None, None] \<and>
         fst (post_trip_image e req w) =
           Responded 201 (''File uploaded successfully. URL: '' @ location) \<and>
         calls (snd (post_trip_image e req w)) =
           calls w @ [VisionLandmark b, VisionLabel b, S3Upload p,
                      DbQuery (InsertImage location (req_params_id req) cap None None None)] \<and>
         images (db (snd (post_trip_image e req w))) =
           images (db w) @
             [\<lparr>images_id = imageId, images_file_url = location,
               images_trip_id = Some tid, images_caption = Some cap,
               images_tag1 = None, images_tag2 = None, images_tag3 = None\<rparr>]"
proof -
  let ?q = "InsertImage location (req_params_id req) cap None None None"
  have valid: "truthy (req_body_caption req)" "truthy (originalname f)" "truthy (mimetype f)"
    using assms(2-5,7,8) by (simp_all add: truthy_def)
  have p: "params e f = p"
    using assms(4,6,7,12) by (simp add: params_def)
  have td: "\<And>w'. fst (resolve_tagData ldmkArray [] w') =
      \<lparr>tag1 = None, tag2 = None, tag3 = None, tag4 = None, tag5 = None\<rparr>"
    using assms(10) by (simp add: resolve_tagData_no_landmark js_index_Nil)
  have up: "s3_upload e (params e f) = Inr location"
    using assms(13) p by simp
  have q: "?q = InsertImage location (req_params_id req) (the (req_body_caption req))
                  (tag1 (fst (resolve_tagData ldmkArray (map description []) w)))
                  (tag2 (fst (resolve_tagData ldmkArray (map description []) w)))
                  (tag3 (fst (resolve_tagData ldmkArray (map description []) w)))"
    using assms(2) by (simp add: td)
  note run = post_trip_image_uploaded [OF assms(1) valid(1,2) assms(6) valid(3) assms(9,11)
      up refl q]
  from db_query_accepted [OF assms(15)] obtain v
    where v: "bind_insert location (req_params_id req) cap None None None = Inr v"
      and stored: "images (snd (db_query ?q (db w))) =
               images (db w) @
                 [\<lparr>images_id = imageId, images_file_url = v_file_url v,
                   images_trip_id = Some (v_trip_id v), images_caption = Some (v_caption v),
                   images_tag1 = v_tag1 v, images_tag2 = v_tag2 v,
                   images_tag3 = v_tag3 v\<rparr>]"
    by blast
  from bind_insert_values [OF v] assms(14)
  have vals: "v_file_url v = location" "v_trip_id v = tid" "v_caption v = cap"
    "v_tag1 v = None" "v_tag2 v = None" "v_tag3 v = None"
    by (simp_all add: varchar25_None)
  have 1: "slots (fst (resolve_tagData ldmkArray [] w)) = [None, None, None, None, None]"
    by (simp add: td slots_def)
  have 2: "fst (post_trip_image e req w) =
           Responded 201 (''File uploaded successfully. URL: '' @ location)"
    using assms(15) by (simp add: run(1))
  have 3: "calls (snd (post_trip_image e req w)) =
           calls w @ [VisionLandmark b, VisionLabel b, S3Upload p, DbQuery ?q]"
    by (simp add: run(3) p)
  have 4: "images (db (snd (post_trip_image e req w))) =
           images (db w) @
             [\<lparr>images_id = imageId, images_file_url = location,
               images_trip_id = Some tid, images_caption = Some cap,
               images_tag1 = None, images_tag2 = None, images_tag3 = None\<rparr>]"
    by (simp add: run(2) stored vals)
  from 1 2 3 4 show ?thesis by simp
qed

theorem C7_untagged_image_is_stored_witness:
  "fst (post_trip_image env_nothing_seen upload_request world0) =
     Responded 201
       ''File uploaded successfully. URL: https://s3.example/tripimages/eiffel.jpg-1700000000000'' \<and>
   calls (snd (post_trip_image env_nothing_seen upload_request world0)) =
     [VisionLandmark [0xFF, 0xD8], VisionLabel [0xFF, 0xD8],
      S3Upload \<lparr>Bucket = ''traveler-capstone-images'',
                Key = ''tripimages/eiffel.jpg-1700000000000'',
                Body = [0xFF, 0xD8], ContentType = ''image/jpeg''\<rparr>,
      DbQuery (InsertImage ''https://s3.example/tripimages/eiffel.jpg-1700000000000'' ''1''
                 ''Evening in Paris'' None None None)] \<and>
   images (db (snd (post_trip_image env_nothing_seen upload_request world0))) =
     [\<lparr>images_id = 1,
       images_file_url = ''https://s3.example/tripimages/eiffel.jpg-1700000000000'',
       images_trip_id = Some 1, images_caption = Some ''Evening in Paris'',
       images_tag1 = None, images_tag2 = None, images_tag3 = None\<rparr>]"
proof -
  let ?url = "''https://s3.example/tripimages/eiffel.jpg-1700000000000''"
  let ?p = "\<lparr>Bucket = ''traveler-capstone-images'',
             Key = ''tripimages/'' @ ''eiffel.jpg'' @ ''-'' @
                   toString (Date_now env_nothing_seen),
             Body = [0xFF, 0xD8], ContentType = ''image/jpeg''\<rparr>"
  have key: "toString (Date_now env_nothing_seen) = ''1700000000000''"
    by (simp add: env_nothing_seen_def env_eiffel_def toString.simps)
  have upl: "req_file upload_request = Some photo"
    "req_body_caption upload_request = Some ''Evening in Paris''"
    "originalname photo = Some ''eiffel.jpg''" "buffer photo = Some [0xFF, 0xD8]"
    "mimetype photo = Some ''image/jpeg''"
    by (simp_all add: upload_request_def photo_def)
  have up: "s3_upload env_nothing_seen ?p = Inr ?url"
    by (simp add: example_upload key)
  have bound: "bind_insert ?url ''1'' ''Evening in Paris'' None None None =
      Inr \<lparr>v_file_url = ?url, v_trip_id = 1, v_caption = ''Evening in Paris'',
           v_tag1 = None, v_tag2 = None, v_tag3 = None\<rparr>"
    by (rule bind_insert_accepts [OF example_url(1) example_trip_id(2) example_url(2)
          null_or_text_param_accepts(1) null_or_text_param_accepts(1)
          null_or_text_param_accepts(1) varchar25_None varchar25_None varchar25_None])
  have ins: "fst (db_query (InsertImage ?url (req_params_id upload_request)
                     ''Evening in Paris'' None None None) (db world0)) = Inr 1"
    using db_query_stored [OF bound, of db0] example_database
    by (simp add: example_trip_id(1) example_world)
  have tid: "int4_param (req_params_id upload_request) = Inr 1"
    by (simp add: example_trip_id)
  from C7_untagged_image_is_stored [OF upl(1,2) _ upl(3) _ upl(4,5) _
      example_classifier(5) _ example_classifier(6) refl up tid ins]
  show ?thesis
    by (simp add: example_trip_id(1) example_world example_database key)
qed


section \<open>The stored row of a tagged image\<close>

text \<open>
  C1: the request of the specification's scenario, run on the code: one landmark
  "Eiffel Tower", the labels tower, sky, architecture, landmark, europe, a successful
  upload and an existing trip. The handler computes five tags, \<^verbatim>\<open>tag4\<close> being
  "architecture"; the insert of \<^verbatim>\<open>Trip.addImage\<close> names \<^verbatim>\<open>tag1\<close> to \<^verbatim>\<open>tag3\<close> only, so
  the stored row holds "Eiffel Tower", "tower" and "sky" and neither a fourth nor a fifth
  tag.
\<close>

theorem C1_eiffel_row_has_three_tags:
  "fst (resolve_tagData (Some [\<lparr>description = ''Eiffel Tower''\<rparr>])
          [''tower'', ''sky'', ''architecture'', ''landmark'', ''europe''] world0) =
     \<lparr>tag1 = Some ''Eiffel Tower'', tag2 = Some ''tower'', tag3 = Some ''sky'',
      tag4 = Some ''architecture'', tag5 = Some ''landmark''\<rparr> \<and>
   fst (post_trip_image env_eiffel upload_request world0) =
     Responded 201
       ''File uploaded successfully. URL: https://s3.example/tripimages/eiffel.jpg-1700000000000'' \<and>
   calls (snd (post_trip_image env_eiffel upload_request world0)) =
     [VisionLandmark [0xFF, 0xD8], VisionLabel [0xFF, 0xD8],
      S3Upload (params env_eiffel photo),
      DbQuery (InsertImage ''https://s3.example/tripimages/eiffel.jpg-1700000000000'' ''1''
                 ''Evening in Paris'' (Some ''Eiffel Tower'') (Some ''tower'') (Some ''sky''))] \<and>
   images (db (snd (post_trip_image env_eiffel upload_request world0))) =
     [\<lparr>images_id = 1,
       images_file_url = ''https://s3.example/tripimages/eiffel.jpg-1700000000000'',
       images_trip_id = Some 1, images_caption = Some ''Evening in Paris'',
       images_tag1 = Some ''Eiffel Tower'', images_tag2 = Some ''tower'',
       images_tag3 = Some ''sky''\<rparr>]"
proof -
  let ?url = "''https://s3.example/tripimages/eiffel.jpg-1700000000000''"
  let ?q = "InsertImage ?url ''1'' ''Evening in Paris''
              (Some ''Eiffel Tower'') (Some ''tower'') (Some ''sky'')"
  have up: "s3_upload env_eiffel (params env_eiffel photo) = Inr ?url"
    by (simp add: example_upload example_key)
  have td: "\<lparr>tag1 = Some ''Eiffel Tower'', tag2 = Some ''tower'', tag3 = Some ''sky'',
             tag4 = Some ''architecture'', tag5 = Some ''landmark''\<rparr> =
            fst (resolve_tagData (Some [\<lparr>description = ''Eiffel Tower''\<rparr>])
              (map description (map (\<lambda>s. \<lparr>description = s\<rparr>)
                 [''tower'', ''sky'', ''architecture'', ''landmark'', ''europe''])) world0)"
    by (simp add: example_tagData)
  have q: "?q = InsertImage ?url (req_params_id upload_request)
                  (the (req_body_caption upload_request))
                  (tag1 \<lparr>tag1 = Some ''Eiffel Tower'', tag2 = Some ''tower'', tag3 = Some ''sky'',
             tag4 = Some ''architecture'', tag5 = Some ''landmark''\<rparr>)
                  (tag2 \<lparr>tag1 = Some ''Eiffel Tower'', tag2 = Some ''tower'', tag3 = Some ''sky'',
             tag4 = Some ''architecture'', tag5 = Some ''landmark''\<rparr>)
                  (tag3 \<lparr>tag1 = Some ''Eiffel Tower'', tag2 = Some ''tower'', tag3 = Some ''sky'',
             tag4 = Some ''architecture'', tag5 = Some ''landmark''\<rparr>)"
    by (simp add: upload_request_def)
  note run = post_trip_image_uploaded [OF example_request_valid example_classifier(1,2) up td q]
  have ins: "db_query ?q (db world0) =
      (Inr 1, db0\<lparr>images_id_seq := 2,
         images := [\<lparr>images_id = 1, images_file_url = ?url,
                     images_trip_id = Some 1, images_caption = Some ''Evening in Paris'',
                     images_tag1 = Some ''Eiffel Tower'', images_tag2 = Some ''tower'',
                     images_tag3 = Some ''sky''\<rparr>]\<rparr>)"
  proof -
    have "bind_insert ?url ''1'' ''Evening in Paris''
            (Some ''Eiffel Tower'') (Some ''tower'') (Some ''sky'') =
          Inr \<lparr>v_file_url = ?url, v_trip_id = 1, v_caption = ''Evening in Paris'',
               v_tag1 = Some ''Eiffel Tower'', v_tag2 = Some ''tower'',
               v_tag3 = Some ''sky''\<rparr>"
      by (rule bind_insert_accepts [OF example_url(1) example_trip_id(2) example_url(2)
            null_or_text_param_accepts(2) null_or_text_param_accepts(2)
            null_or_text_param_accepts(2) varchar25_short varchar25_short varchar25_short])
        simp_all
    from db_query_stored [OF this, of db0] example_database show ?thesis
      by (simp add: example_world)
  qed
  have 1: "fst (resolve_tagData (Some [\<lparr>description = ''Eiffel Tower''\<rparr>])
          [''tower'', ''sky'', ''architecture'', ''landmark'', ''europe''] world0) =
     \<lparr>tag1 = Some ''Eiffel Tower'', tag2 = Some ''tower'', tag3 = Some ''sky'',
      tag4 = Some ''architecture'', tag5 = Some ''landmark''\<rparr>"
    by (rule example_tagData)
  have 2: "fst (post_trip_image env_eiffel upload_request world0) =
     Responded 201 (''File uploaded successfully. URL: '' @ ?url)"
    by (simp add: run(1) ins)
  have 3: "calls (snd (post_trip_image env_eiffel upload_request world0)) =
     [VisionLandmark [0xFF, 0xD8], VisionLabel [0xFF, 0xD8],
      S3Upload (params env_eiffel photo), DbQuery ?q]"
    using example_world by (simp add: run(3))
  have 4: "images (db (snd (post_trip_image env_eiffel upload_request world0))) =
     [\<lparr>images_id = 1, images_file_url = ?url,
       images_trip_id = Some 1, images_caption = Some ''Evening in Paris'',
       images_tag1 = Some ''Eiffel Tower'', images_tag2 = Some ''tower'',
       images_tag3 = Some ''sky''\<rparr>]"
    by (simp add: run(2) ins)
  from 1 2 3 4 show ?thesis by simp
qed

theorem C1_eiffel_row_has_three_tags_witness:
  "map tag_columns (images (db (snd (post_trip_image env_eiffel upload_request world0)))) =
     [[Some ''Eiffel Tower'', Some ''tower'', Some ''sky'']]"
  using C1_eiffel_row_has_three_tags by (simp add: tag_columns_def)


section \<open>Where errors go\<close>

text \<open>
  An upload that fails is answered by the callback itself, with status 500: the error
  is not handed to \<^verbatim>\<open>next\<close>, so it does not reach the top-level error handler.
\<close>

theorem C3_upload_error_counterexample:
  "s3_upload env_upload_fails (params env_upload_fails photo) = Inl (SdkError ''RequestTimeout'') \<and>
   fst (post_trip_image env_upload_fails upload_request world0) =
     Responded 500 ''Error uploading image to S3'' \<and>
   fst (post_trip_image env_upload_fails upload_request world0) \<noteq>
     NextCalled (SdkError ''RequestTimeout'')"
  by (simp add: post_trip_image_classified [OF example_request_valid example_classifier(3,4)]
      Let_def example_upload upload_callback_error)

text \<open>
  C3, as the code has it: for a request that passes the checks and is classified, an
  upload failure is written to the console and answered with status 500 and the text
  "Error uploading image to S3", and a failure of the insert is handed, unchanged, to
  \<^verbatim>\<open>next\<close>, that is to the top-level error handler. (A failure of the classifier is not
  covered by this statement.)
\<close>

theorem C3_error_routing:
  assumes "req_file req = Some f" "truthy (req_body_caption req)" "truthy (originalname f)"
    "buffer f = Some b" "truthy (mimetype f)"
    and "vision_landmarkDetection e b = Inr ldmkArray"
    and "vision_labelDetection e b = Inr (Some labels)"
    and "td = fst (resolve_tagData ldmkArray (map description labels) w)"
  shows "(\<forall>err. s3_upload e (params e f) = Inl err \<longrightarrow>
            fst (post_trip_image e req w) = Responded 500 ''Error uploading image to S3'' \<and>
            last (console (snd (post_trip_image e req w))) = ConsoleError err) \<and>
         (\<forall>location pe. s3_upload e (params e f) = Inr location \<longrightarrow>
            fst (db_query (InsertImage location (req_params_id req)
                             (the (req_body_caption req)) (tag1 td) (tag2 td) (tag3 td))
                   (db w)) = Inl pe \<longrightarrow>
            fst (post_trip_image e req w) = NextCalled (DatabaseError pe))"
proof (intro conjI allI impI)
  fix err
  assume "s3_upload e (params e f) = Inl err"
  then show "fst (post_trip_image e req w) = Responded 500 ''Error uploading image to S3''"
    and "last (console (snd (post_trip_image e req w))) = ConsoleError err"
    by (simp_all add: post_trip_image_classified [OF assms(1-7)] Let_def upload_callback_error)
next
  fix location pe
  assume up: "s3_upload e (params e f) = Inr location"
    and pe: "fst (db_query (InsertImage location (req_params_id req)
                             (the (req_body_caption req)) (tag1 td) (tag2 td) (tag3 td))
                   (db w)) = Inl pe"
  show "fst (post_trip_image e req w) = NextCalled (DatabaseError pe)"
    using post_trip_image_uploaded(1) [OF assms(1-7) up assms(8) refl] pe by simp
qed

theorem C3_error_routing_witness:
  "fst (post_trip_image env_upload_fails upload_request world0) =
     Responded 500 ''Error uploading image to S3'' \<and>
   last (console (snd (post_trip_image env_upload_fails upload_request world0))) =
     ConsoleError (SdkError ''RequestTimeout'') \<and>
   fst (post_trip_image env_eiffel (upload_request\<lparr>req_params_id := ''99''\<rparr>) world0) =
     NextCalled (DatabaseError foreign_key_violation)"
proof -
  let ?req = "upload_request\<lparr>req_params_id := ''99''\<rparr>"
  let ?url = "''https://s3.example/tripimages/eiffel.jpg-1700000000000''"
  have valid: "req_file ?req = Some photo" "truthy (req_body_caption ?req)"
    using example_request_valid(1,2) by simp_all
  have a: "fst (post_trip_image env_upload_fails upload_request world0) =
             Responded 500 ''Error uploading image to S3'' \<and>
           last (console (snd (post_trip_image env_upload_fails upload_request world0))) =
             ConsoleError (SdkError ''RequestTimeout'')"
    using C3_error_routing [OF example_request_valid example_classifier(3,4) refl, of world0]
    by (simp add: example_upload)
  have "bind_insert ?url ''99'' ''Evening in Paris''
          (Some ''Eiffel Tower'') (Some ''tower'') (Some ''sky'') =
        Inr \<lparr>v_file_url = ?url, v_trip_id = 99, v_caption = ''Evening in Paris'',
             v_tag1 = Some ''Eiffel Tower'', v_tag2 = Some ''tower'', v_tag3 = Some ''sky''\<rparr>"
    by (rule bind_insert_accepts [OF example_url(1) example_trip_id(3) example_url(2)
          null_or_text_param_accepts(2) null_or_text_param_accepts(2)
          null_or_text_param_accepts(2) varchar25_short varchar25_short varchar25_short])
      simp_all
  from db_query_foreign_key [OF this, of db0] example_database
  have fk: "fst (db_query (InsertImage ?url ''99'' ''Evening in Paris''
               (Some ''Eiffel Tower'') (Some ''tower'') (Some ''sky'')) (db world0)) =
            Inl foreign_key_violation"
    by (simp add: example_world)
  have b: "fst (post_trip_image env_eiffel ?req world0) =
             NextCalled (DatabaseError foreign_key_violation)"
    using C3_error_routing [OF valid example_request_valid(3-5) example_classifier(1,2) refl,
        of world0] fk
    by (simp add: example_upload example_tagData example_key upload_request_def)
  from a b show ?thesis by simp
qed


section \<open>The tag logic and the state\<close>

text \<open>
  With a landmark the tag logic writes the line "Found Landmark" to the console: it is
  not free of side effects.
\<close>

theorem C8_found_landmark_is_logged_counterexample:
  "console world0 = [] \<and>
   console (snd (resolve_tagData (Some [\<lparr>description = ''Eiffel Tower''\<rparr>]) [''tower''] world0)) =
     [ConsoleLog ''Found Landmark'']"
  by (simp add: resolve_tagData_def world0_def)

text \<open>
  C8, as the code has it: the tag set depends on the landmark array and the labels only,
  whatever the rest of the state; computing it changes neither the database nor the calls
  made, and its one effect is the console line "Found Landmark" when a landmark was
  found.
\<close>

theorem C8_tagData_depends_on_its_inputs_only:
  "fst (resolve_tagData ldmkArray tags w1) = fst (resolve_tagData ldmkArray tags w2) \<and>
   db (snd (resolve_tagData ldmkArray tags w1)) = db w1 \<and>
   calls (snd (resolve_tagData ldmkArray tags w1)) = calls w1 \<and>
   console (snd (resolve_tagData ldmkArray tags w1)) =
     console w1 @ (if ldmkArray = None \<or> ldmkArray = Some [] then []
                   else [ConsoleLog ''Found Landmark''])"
proof -
  have "console (snd (resolve_tagData ldmkArray tags w1)) =
     console w1 @ (if ldmkArray = None \<or> ldmkArray = Some [] then []
                   else [ConsoleLog ''Found Landmark''])"
    by (cases ldmkArray) (simp_all add: resolve_tagData_def)
  then show ?thesis
    using resolve_tagData_world_indep [of ldmkArray tags w1 w2]
    by (simp add: resolve_tagData_frame)
qed

theorem C8_tagData_depends_on_its_inputs_only_witness:
  "fst (resolve_tagData (Some [\<lparr>description = ''Eiffel Tower''\<rparr>]) [''tower''] world0) =
   fst (resolve_tagData (Some [\<lparr>description = ''Eiffel Tower''\<rparr>]) [''tower'']
         (world0\<lparr>db := db0\<lparr>trips := []\<rparr>, console := [ConsoleLog ''earlier line'']\<rparr>)) \<and>
   console (snd (resolve_tagData (Some []) [''tower''] world0)) = []"
  using C8_tagData_depends_on_its_inputs_only [of "Some [\<lparr>description = ''Eiffel Tower''\<rparr>]"
      "[''tower'']" world0
      "world0\<lparr>db := db0\<lparr>trips := []\<rparr>, console := [ConsoleLog ''earlier line'']\<rparr>"]
    C8_tagData_depends_on_its_inputs_only [of "Some []" "[''tower'']" world0 world0]
  by (simp add: example_world)


section \<open>\<^verbatim>\<open>Trip.addImage\<close> and a trip that does not exist\<close>

text \<open>
  For the id of a trip that does not exist the failure is not always the foreign-key
  violation: a tag of 31 characters does not fit its column, and the database refuses it
  before it looks at the reference.
\<close>

theorem C9_long_tag_counterexample:
  "int4_param ''99'' = Inr 99 \<and>
   99 \<notin> set (map trips_id (trips (db world0))) \<and>
   fst (addImage ''99''
          \<lparr>tag1 = Some ''Basilica of the Sagrada Familia'', tag2 = None, tag3 = None,
           tag4 = None, tag5 = None, file_url = ''https://s3.example/x'', caption = ''x''\<rparr>
          world0) = Inl (DatabaseError string_data_right_truncation) \<and>
   fst (addImage ''99''
          \<lparr>tag1 = Some ''Basilica of the Sagrada Familia'', tag2 = None, tag3 = None,
           tag4 = None, tag5 = None, file_url = ''https://s3.example/x'', caption = ''x''\<rparr>
          world0) \<noteq> Inl (DatabaseError foreign_key_violation)"
proof -
  have "bind_insert ''https://s3.example/x'' ''99'' ''x''
          (Some ''Basilica of the Sagrada Familia'') None None =
        Inl string_data_right_truncation"
    by (simp add: bind_insert_def example_trip_id text_param_def null_or_text_param_def
        varchar25_def)
  from db_query_refused [OF this, of "db world0"] example_database(5) show ?thesis
    by (simp add: addImage_result example_trip_id example_world)
qed

text \<open>
  C9, as the code has it: \<^verbatim>\<open>Trip.addImage\<close> never throws \<^verbatim>\<open>NotFoundError\<close>; whatever the
  trip id, the one query it runs is the insert (no look-up of the trip before it), and a
  failure of that query is thrown as the error of the database, with no row stored. For an
  id that reads as an integer naming no trip the call always fails; the failure is the
  foreign-key violation when the database accepts the values and can give a fresh id, and
  the error of the earlier refusal otherwise. For an id that names a trip, under the same
  conditions, the row is stored and its id returned.
\<close>

theorem C9_addImage_leaves_the_check_to_the_database:
  assumes "q = InsertImage (file_url img) tripId (caption img) (tag1 img) (tag2 img) (tag3 img)"
  shows "(\<forall>msg. fst (addImage tripId img w) \<noteq> Inl (NotFoundError msg)) \<and>
   calls (snd (addImage tripId img w)) = calls w @ [DbQuery q] \<and>
   (\<forall>pe. fst (db_query q (db w)) = Inl pe \<longrightarrow>
      fst (addImage tripId img w) = Inl (DatabaseError pe) \<and>
      images (db (snd (addImage tripId img w))) = images (db w)) \<and>
   (\<forall>i. int4_param tripId = Inr i \<longrightarrow> i \<notin> set (map trips_id (trips (db w))) \<longrightarrow>
      (\<exists>pe. fst (addImage tripId img w) = Inl (DatabaseError pe))) \<and>
   (\<forall>v. bind_insert (file_url img) tripId (caption img) (tag1 img) (tag2 img) (tag3 img) =
          Inr v \<longrightarrow> id_available (db w) \<longrightarrow>
      (v_trip_id v \<notin> set (map trips_id (trips (db w))) \<longrightarrow>
         fst (addImage tripId img w) = Inl (DatabaseError foreign_key_violation)) \<and>
      (v_trip_id v \<in> set (map trips_id (trips (db w))) \<longrightarrow>
         fst (addImage tripId img w) = Inr (images_id_seq (db w)) \<and>
         images (db (snd (addImage tripId img w))) =
           images (db w) @
             [\<lparr>images_id = images_id_seq (db w), images_file_url = file_url img,
               images_trip_id = Some (v_trip_id v), images_caption = Some (caption img),
               images_tag1 = v_tag1 v, images_tag2 = v_tag2 v, images_tag3 = v_tag3 v\<rparr>])) \<and>
   (\<forall>pe. bind_insert (file_url img) tripId (caption img) (tag1 img) (tag2 img) (tag3 img) =
          Inl pe \<longrightarrow> fst (addImage tripId img w) = Inl (DatabaseError pe))"
proof (intro conjI allI impI)
  fix msg
  show "fst (addImage tripId img w) \<noteq> Inl (NotFoundError msg)"
    by (simp add: addImage_result split: sum.split)
next
  show "calls (snd (addImage tripId img w)) = calls w @ [DbQuery q]"
    unfolding assms by (rule addImage_calls)
next
  fix pe
  assume pe: "fst (db_query q (db w)) = Inl pe"
  then show "fst (addImage tripId img w) = Inl (DatabaseError pe)"
    unfolding assms by (simp add: addImage_result)
  from db_query_failed [OF pe]
  show "images (db (snd (addImage tripId img w))) = images (db w)"
    unfolding assms by (simp add: addImage_db)
next
  fix i
  assume "int4_param tripId = Inr i" and "i \<notin> set (map trips_id (trips (db w)))"
  from db_query_no_trip [OF this]
  obtain pe where "fst (db_query (InsertImage (file_url img) tripId (caption img)
                           (tag1 img) (tag2 img) (tag3 img)) (db w)) = Inl pe"
    by blast
  then have "fst (addImage tripId img w) = Inl (DatabaseError pe)"
    by (simp add: addImage_result)
  then show "\<exists>pe. fst (addImage tripId img w) = Inl (DatabaseError pe)" ..
next
  fix v
  assume v: "bind_insert (file_url img) tripId (caption img) (tag1 img) (tag2 img) (tag3 img) =
               Inr v"
    and ok: "id_available (db w)"
    and no: "v_trip_id v \<notin> set (map trips_id (trips (db w)))"
  from db_query_foreign_key [OF v ok no]
  show "fst (addImage tripId img w) = Inl (DatabaseError foreign_key_violation)"
    by (simp add: addImage_result)
next
  fix v
  assume v: "bind_insert (file_url img) tripId (caption img) (tag1 img) (tag2 img) (tag3 img) =
               Inr v"
    and ok: "id_available (db w)"
    and yes: "v_trip_id v \<in> set (map trips_id (trips (db w)))"
  note stored = db_query_stored [OF v ok yes]
  show "fst (addImage tripId img w) = Inr (images_id_seq (db w))"
    by (simp add: addImage_result stored)
  show "images (db (snd (addImage tripId img w))) =
           images (db w) @
             [\<lparr>images_id = images_id_seq (db w), images_file_url = file_url img,
               images_trip_id = Some (v_trip_id v), images_caption = Some (caption img),
               images_tag1 = v_tag1 v, images_tag2 = v_tag2 v, images_tag3 = v_tag3 v\<rparr>]"
    using bind_insert_values(1,3) [OF v] by (simp add: addImage_db stored)
next
  fix pe
  assume "bind_insert (file_url img) tripId (caption img) (tag1 img) (tag2 img) (tag3 img) =
            Inl pe"
  from db_query_refused [OF this]
  show "fst (addImage tripId img w) = Inl (DatabaseError pe)"
    by (simp add: addImage_result)
qed

theorem C9_addImage_leaves_the_check_to_the_database_witness:
  "fst (addImage ''99'' \<lparr>tag1 = Some ''Eiffel Tower'', tag2 = None, tag3 = None, tag4 = None,
                     tag5 = None, file_url = ''https://s3.example/x'', caption = ''x''\<rparr> world0) =
     Inl (DatabaseError foreign_key_violation) \<and>
   fst (addImage ''1'' \<lparr>tag1 = Some ''Eiffel Tower'', tag2 = None, tag3 = None, tag4 = None,
                     tag5 = None, file_url = ''https://s3.example/x'', caption = ''x''\<rparr> world0) =
     Inr 1 \<and>
   images (db (snd (addImage ''1'' \<lparr>tag1 = Some ''Eiffel Tower'', tag2 = None, tag3 = None,
                     tag4 = None, tag5 = None, file_url = ''https://s3.example/x'',
                     caption = ''x''\<rparr> world0))) =
     [\<lparr>images_id = 1, images_file_url = ''https://s3.example/x'', images_trip_id = Some 1,
       images_caption = Some ''x'', images_tag1 = Some ''Eiffel Tower'', images_tag2 = None,
       images_tag3 = None\<rparr>] \<and>
   fst (addImage ''2147483648'' \<lparr>tag1 = None, tag2 = None, tag3 = None, tag4 = None,
                     tag5 = None, file_url = ''https://s3.example/x'', caption = ''x''\<rparr> world0) =
     Inl (DatabaseError numeric_value_out_of_range)"
proof -
  let ?img = "\<lparr>tag1 = Some ''Eiffel Tower'', tag2 = None, tag3 = None, tag4 = None,
               tag5 = None, file_url = ''https://s3.example/x'', caption = ''x''\<rparr>"
  let ?bare = "\<lparr>tag1 = None, tag2 = None, tag3 = None, tag4 = None,
                tag5 = None, file_url = ''https://s3.example/x'', caption = ''x''\<rparr>"
  have clean: "text_param ''https://s3.example/x'' = Inr ''https://s3.example/x''"
    "text_param ''x'' = Inr ''x''"
    by (simp_all add: text_param_def)
  have b99: "bind_insert (file_url ?img) ''99'' (caption ?img) (tag1 ?img) (tag2 ?img) (tag3 ?img) =
      Inr \<lparr>v_file_url = ''https://s3.example/x'', v_trip_id = 99, v_caption = ''x'',
           v_tag1 = Some ''Eiffel Tower'', v_tag2 = None, v_tag3 = None\<rparr>"
    using bind_insert_accepts [OF clean(1) example_trip_id(3) clean(2)
        null_or_text_param_accepts(2) null_or_text_param_accepts(1)
        null_or_text_param_accepts(1) varchar25_short varchar25_None varchar25_None,
        of "''Eiffel Tower''"]
    by simp
  have b1: "bind_insert (file_url ?img) ''1'' (caption ?img) (tag1 ?img) (tag2 ?img) (tag3 ?img) =
      Inr \<lparr>v_file_url = ''https://s3.example/x'', v_trip_id = 1, v_caption = ''x'',
           v_tag1 = Some ''Eiffel Tower'', v_tag2 = None, v_tag3 = None\<rparr>"
    using bind_insert_accepts [OF clean(1) example_trip_id(2) clean(2)
        null_or_text_param_accepts(2) null_or_text_param_accepts(1)
        null_or_text_param_accepts(1) varchar25_short varchar25_None varchar25_None,
        of "''Eiffel Tower''"]
    by simp
  have big: "bind_insert (file_url ?bare) ''2147483648'' (caption ?bare)
               (tag1 ?bare) (tag2 ?bare) (tag3 ?bare) = Inl numeric_value_out_of_range"
    by (simp add: bind_insert_def text_param_def int4_param_def int4in_def is_space_def
        digit_def decimal_def Let_def)
  have ok: "id_available (db world0)" "99 \<notin> set (map trips_id (trips (db world0)))"
    "1 \<in> set (map trips_id (trips (db world0)))"
    using example_database by (simp_all add: example_world)
  from C9_addImage_leaves_the_check_to_the_database
      [where img = ?img and tripId = "''99''" and w = world0, OF refl] b99 ok
  have 1: "fst (addImage ''99'' ?img world0) = Inl (DatabaseError foreign_key_violation)"
    by simp
  from C9_addImage_leaves_the_check_to_the_database
      [where img = ?img and tripId = "''1''" and w = world0, OF refl] b1 ok
  have 2: "fst (addImage ''1'' ?img world0) = Inr (images_id_seq (db world0)) \<and>
           images (db (snd (addImage ''1'' ?img world0))) =
             images (db world0) @
               [\<lparr>images_id = images_id_seq (db world0),
                 images_file_url = ''https://s3.example/x'', images_trip_id = Some 1,
                 images_caption = Some ''x'', images_tag1 = Some ''Eiffel Tower'',
                 images_tag2 = None, images_tag3 = None\<rparr>]"
    by simp
  from C9_addImage_leaves_the_check_to_the_database
      [where img = ?bare and tripId = "''2147483648''" and w = world0, OF refl]
    big
  have 3: "fst (addImage ''2147483648'' ?bare world0) =
             Inl (DatabaseError numeric_value_out_of_range)"
    by simp
  from 1 2 3 show ?thesis
    by (simp add: example_world example_database)
qed


section \<open>\<^verbatim>\<open>User.authenticate\<close> and the password\<close>

lemma js_get_js_delete: "js_get (js_delete k obj) k = None"
  by (induction obj) (auto simp add: js_get_def js_delete_def)

text \<open>
  C10: when \<^verbatim>\<open>User.authenticate\<close> returns a user, the object has no \<^verbatim>\<open>password\<close>
  property: it is the row of the query, which does select the password and whose hash
  was compared, with that property deleted.
\<close>

theorem C10_authenticate_drops_password:
  assumes "authenticate bcrypt_compare d username password = Inr user"
  shows "js_get user ''password'' = None \<and>
         (\<exists>row hash. js_index (select_user d username) 0 = Some row \<and>
              js_get row ''password'' = Some (JsString hash) \<and>
              bcrypt_compare password hash \<and>
              user = js_delete ''password'' row)"
  using assms
  by (auto simp add: authenticate_def js_get_js_delete
      split: option.splits js_value.splits if_splits)

theorem C10_authenticate_drops_password_witness:
  "authenticate credentials_match db0 ''ada'' ''opensesame'' =
     Inr [(''username'', JsString ''ada''), (''firstName'', JsString ''Ada''),
          (''lastName'', JsNull), (''profImage'', JsNull), (''about'', JsNull)] \<and>
   js_get [(''username'', JsString ''ada''), (''firstName'', JsString ''Ada''),
          (''lastName'', JsNull), (''profImage'', JsNull), (''about'', JsNull)] ''password'' = None"
proof -
  have run: "authenticate credentials_match db0 ''ada'' ''opensesame'' =
     Inr [(''username'', JsString ''ada''), (''firstName'', JsString ''Ada''),
          (''lastName'', JsNull), (''profImage'', JsNull), (''about'', JsNull)]"
    by (simp add: authenticate_def select_user_def db0_def js_index_def js_get_def
        js_delete_def nullable_def credentials_match_def)
  from C10_authenticate_drops_password [OF run] run show ?thesis by simp
qed

end
